theory Spec2Isabelle
  imports Complex_Main "HOL-Library.AList" "HOL-Library.Char_ord" "HOL-Library.List_Lexorder"
begin

section \<open>Data model\<close>

text \<open>
  The cache file \<^verbatim>\<open>currency_rate.json\<close> is loaded into a Python dict from anchor code to
  whatever the API returned for that anchor. A dict iterates in insertion order, so the
  table is an association list; \<open>map_of\<close> reads it by key. An entry is either not a dict
  (\<open>None\<close>, stored by \<^verbatim>\<open>update_currency_rates\<close> after a fetch with a status other than 200)
  or a dict that may or may not carry the key \<^verbatim>\<open>"rates"\<close>. Rates are Python numbers; they are
  idealised as rationals, so \<open>/\<close> below is exact division.
\<close>

type_synonym rates = "(string \<times> rat) list"

datatype entry = NoneEntry | DictEntry "rates option"

type_synonym table = "(string \<times> entry) list"

datatype py_error = KeyError | ZeroDivisionError | RequestException | JSONDecodeError | OSError

text \<open>\<^verbatim>\<open>k in d\<close> for a dict \<open>d\<close>.\<close>

definition contains :: "(string \<times> 'v) list \<Rightarrow> string \<Rightarrow> bool" where
  "contains d k = (k \<in> set (map fst d))"

text \<open>\<^verbatim>\<open>d[k]\<close>: raises \<open>KeyError\<close> on a missing key.\<close>

definition getitem :: "(string \<times> 'v) list \<Rightarrow> string \<Rightarrow> py_error + 'v" where
  "getitem d k = (case map_of d k of None \<Rightarrow> Inl KeyError | Some v \<Rightarrow> Inr v)"

text \<open>\<^verbatim>\<open>a / b\<close>: raises \<open>ZeroDivisionError\<close> when \<open>b\<close> is zero.\<close>

definition py_div :: "rat \<Rightarrow> rat \<Rightarrow> py_error + rat" where
  "py_div a b = (if b = 0 then Inl ZeroDivisionError else Inr (a / b))"

text \<open>
  \<^verbatim>\<open>isinstance(currency_data, dict) and "rates" in currency_data\<close>, giving
  \<^verbatim>\<open>currency_data["rates"]\<close> when the test holds.
\<close>

fun rates_of :: "entry \<Rightarrow> rates option" where
  "rates_of NoneEntry = None"
| "rates_of (DictEntry r) = r"

section \<open>Rate resolver (currency\_converter.py)\<close>

text \<open>The \<^verbatim>\<open>for base_currency, currency_data in data.items()\<close> loop of \<^verbatim>\<open>find_base_currency\<close>.\<close>

fun scan_items :: "table \<Rightarrow> string \<Rightarrow> string option" where
  "scan_items [] currency = None"
| "scan_items ((base_currency, currency_data) # rest) currency =
     (case rates_of currency_data of
        None \<Rightarrow> scan_items rest currency
      | Some rs \<Rightarrow>
          if contains rs currency then Some base_currency
          else scan_items rest currency)"

definition find_base_currency :: "table \<Rightarrow> string \<Rightarrow> string option" where
  "find_base_currency data currency =
     (if contains data currency then Some currency
      else scan_items data currency)"

text \<open>
  \<^verbatim>\<open>get_exchange_rate\<close>. \<^verbatim>\<open>if not base_currency\<close> is true of \<open>None\<close> and of the empty
  string alike. The result is \<open>Inr None\<close> for Python's \<open>None\<close>, \<open>Inr (Some r)\<close> for a
  rate, \<open>Inl e\<close> for an exception that leaves the function.
\<close>

definition get_exchange_rate :: "table \<Rightarrow> string \<Rightarrow> string \<Rightarrow> py_error + rat option" where
  "get_exchange_rate data from_currency to_currency =
     (if from_currency = to_currency then Inr (Some 1)
      else
       (case find_base_currency data from_currency of
          None \<Rightarrow> Inr None
        | Some base_currency \<Rightarrow>
            if base_currency = [] then Inr None
            else
             (case getitem data base_currency of
                Inl e \<Rightarrow> Inl e
              | Inr base_data \<Rightarrow>
                 (case rates_of base_data of
                    None \<Rightarrow> Inr None
                  | Some rs \<Rightarrow>
                      if contains rs from_currency \<and> contains rs to_currency then
                        (case getitem rs from_currency of
                           Inl e \<Rightarrow> Inl e
                         | Inr from_rate \<Rightarrow>
                            (case getitem rs to_currency of
                               Inl e \<Rightarrow> Inl e
                             | Inr to_rate \<Rightarrow>
                                 if from_rate = 0 then Inr None
                                 else
                                  (case py_div to_rate from_rate of
                                     Inl e \<Rightarrow> Inl e
                                   | Inr q \<Rightarrow> Inr (Some q))))
                      else Inr None))))"






section \<open>Rate views (currency.py)\<close>

text \<open>\<^verbatim>\<open>find_base_currency_for_currency\<close> has the body of \<^verbatim>\<open>find_base_currency\<close>.\<close>

definition find_base_currency_for_currency :: "table \<Rightarrow> string \<Rightarrow> string option" where
  "find_base_currency_for_currency data currency =
     (if contains data currency then Some currency
      else scan_items data currency)"




section \<open>Rate store (currency.py)\<close>

text \<open>
  The HTTP capability: \<^verbatim>\<open>requests.get\<close> either raises (no connection, timeout) or gives a
  response with a status code and a body; \<^verbatim>\<open>response.json()\<close> gives the parsed body, or
  raises when the body is not JSON (\<open>None\<close> here). \<^verbatim>\<open>get_currency_rate\<close> catches
  nothing; the line it prints for a status other than 200 is not kept.
\<close>

datatype http_result = NoConnection | Response int "entry option"

definition get_currency_rate :: "(string \<Rightarrow> http_result) \<Rightarrow> string \<Rightarrow> py_error + entry" where
  "get_currency_rate http currency_code =
     (case http currency_code of
        NoConnection \<Rightarrow> Inl RequestException
      | Response status_code body \<Rightarrow>
          if status_code \<noteq> 200 then Inr NoneEntry
          else
           (case body of
              None \<Rightarrow> Inl JSONDecodeError
            | Some data \<Rightarrow> Inr data))"

text \<open>
  The cache file is its contents, \<open>None\<close> when it does not exist. What is printed is kept
  as a list of messages.
\<close>

type_synonym cache = "string option"

datatype message = SaveFailed | DataUpdated | FileNotFound | BadJSON

text \<open>
  Faults of the file system during a save: \<^verbatim>\<open>open(FILE_NAME, "w")\<close> raises, or the write
  of piece number \<open>k\<close> (from 0) raises. \<^verbatim>\<open>json.dump\<close> writes the serialisation to the file
  piece by piece; the pieces are the argument \<open>chunks\<close>.
\<close>

datatype io_fault = NoFault | OpenFails | WriteFails nat

fun write_chunks :: "io_fault \<Rightarrow> string list \<Rightarrow> string \<Rightarrow> bool \<times> string" where
  "write_chunks fault [] written = (True, written)"
| "write_chunks fault (c # cs) written =
     (case fault of
        WriteFails 0 \<Rightarrow> (False, written)
      | WriteFails (Suc k) \<Rightarrow> write_chunks (WriteFails k) cs (written @ c)
      | _ \<Rightarrow> write_chunks fault cs (written @ c))"

text \<open>
  \<^verbatim>\<open>save_to_file\<close>: opening for writing empties the file; every exception is caught and
  printed.
\<close>

definition save_to_file :: "io_fault \<Rightarrow> string list \<Rightarrow> cache \<Rightarrow> cache \<times> message list" where
  "save_to_file fault chunks f =
     (if fault = OpenFails then (f, [SaveFailed])
      else
       (case write_chunks fault chunks [] of
          (True, written) \<Rightarrow> (Some written, [])
        | (False, written) \<Rightarrow> (Some written, [SaveFailed])))"

definition FAVORITE_CURRENCIES :: "string list" where
  "FAVORITE_CURRENCIES = [''USD'', ''EUR'', ''GBP'', ''RUB'']"

text \<open>The loop of \<^verbatim>\<open>update_currency_rates\<close> over the configured codes.\<close>

fun fetch_loop :: "(string \<Rightarrow> http_result) \<Rightarrow> string list \<Rightarrow> table \<Rightarrow> py_error + table" where
  "fetch_loop http [] all_data = Inr all_data"
| "fetch_loop http (currency # rest) all_data =
     (case get_currency_rate http currency of
        Inl e \<Rightarrow> Inl e
      | Inr rate \<Rightarrow> fetch_loop http rest (AList.update currency rate all_data))"

text \<open>
  \<^verbatim>\<open>update_currency_rates\<close>, with the configured codes and the JSON encoder as arguments.
  It returns nothing: its effect is the file and the messages.
\<close>

definition update_currency_rates ::
  "string list \<Rightarrow> (string \<Rightarrow> http_result) \<Rightarrow> (table \<Rightarrow> string list) \<Rightarrow> io_fault \<Rightarrow> cache \<Rightarrow>
     py_error + cache \<times> message list" where
  "update_currency_rates favorites http encode fault f =
     (case fetch_loop http favorites [] of
        Inl e \<Rightarrow> Inl e
      | Inr all_data \<Rightarrow>
          (case save_to_file fault (encode all_data) f of
             (f', out) \<Rightarrow> Inr (f', out @ [DataUpdated])))"

text \<open>
  \<^verbatim>\<open>read_from_file\<close>, with the JSON parser as argument (\<open>None\<close> when it raises). Its
  third handler, for any other exception while reading, returns \<open>None\<close> as the first two
  do; a file that exists is taken to be readable here.
\<close>

definition read_from_file :: "(string \<Rightarrow> table option) \<Rightarrow> cache \<Rightarrow> table option \<times> message list" where
  "read_from_file decode f =
     (case f of
        None \<Rightarrow> (None, [FileNotFound])
      | Some text \<Rightarrow>
         (case decode text of
            None \<Rightarrow> (None, [BadJSON])
          | Some data \<Rightarrow> (Some data, [])))"

text \<open>
  \<^verbatim>\<open>is_file_older_than_24_hours\<close>, from what the three probes give: \<^verbatim>\<open>os.path.exists\<close>,
  \<^verbatim>\<open>os.path.getmtime\<close> (which may raise) and the clock. Times are in microseconds, the
  resolution of \<^verbatim>\<open>datetime\<close>.
\<close>

definition hours :: "int \<Rightarrow> int" where
  "hours n = n * 3600 * 1000000"

definition is_file_older_than_24_hours :: "bool \<Rightarrow> py_error + int \<Rightarrow> int \<Rightarrow> bool" where
  "is_file_older_than_24_hours path_exists getmtime current_time =
     (if \<not> path_exists then True
      else
       (case getmtime of
          Inl e \<Rightarrow> True
        | Inr file_time \<Rightarrow> current_time - file_time > hours 24))"

text \<open>\<^verbatim>\<open>load_or_update_currency_rates\<close>: what it returns is always read back from the file.\<close>

definition load_or_update_currency_rates ::
  "bool \<Rightarrow> py_error + int \<Rightarrow> int \<Rightarrow> string list \<Rightarrow> (string \<Rightarrow> http_result) \<Rightarrow>
     (table \<Rightarrow> string list) \<Rightarrow> (string \<Rightarrow> table option) \<Rightarrow> io_fault \<Rightarrow> cache \<Rightarrow>
     py_error + table option" where
  "load_or_update_currency_rates path_exists getmtime current_time favorites http encode decode
       fault f =
     (if is_file_older_than_24_hours path_exists getmtime current_time then
        (case update_currency_rates favorites http encode fault f of
           Inl e \<Rightarrow> Inl e
         | Inr (f', out) \<Rightarrow> Inr (fst (read_from_file decode f')))
      else Inr (fst (read_from_file decode f)))"

section \<open>Notions used in the statements\<close>

text \<open>An entry lists a code when it is a dict whose \<^verbatim>\<open>"rates"\<close> dict has the code as a key.\<close>

definition has_rate :: "entry \<Rightarrow> string \<Rightarrow> bool" where
  "has_rate e code = (case rates_of e of None \<Rightarrow> False | Some rs \<Rightarrow> contains rs code)"



text \<open>
  Two behaviours of the HTTP capability: every anchor answers 200 with a rates dict, except
  that the request for EUR cannot connect, or that the body returned for EUR is not JSON.
\<close>

definition http_eur_down :: "string \<Rightarrow> http_result" where
  "http_eur_down currency_code =
     (if currency_code = ''EUR'' then NoConnection
      else Response 200 (Some (DictEntry (Some [(currency_code, 1)]))))"

definition http_eur_not_json :: "string \<Rightarrow> http_result" where
  "http_eur_not_json currency_code =
     (if currency_code = ''EUR'' then Response 200 None
      else Response 200 (Some (DictEntry (Some [(currency_code, 1)]))))"

text \<open>Every request is answered with status 503 and no JSON body.\<close>

definition http_unavailable :: "string \<Rightarrow> http_result" where
  "http_unavailable currency_code = Response 503 None"

text \<open>
  The capability answers for a code: \<^verbatim>\<open>requests.get\<close> returns a response, and a response
  with status 200 has a JSON body. What \<^verbatim>\<open>get_currency_rate\<close> then returns is \<open>fetched\<close>.
\<close>

definition answers :: "(string \<Rightarrow> http_result) \<Rightarrow> string \<Rightarrow> bool" where
  "answers http c =
     (case http c of
        NoConnection \<Rightarrow> False
      | Response status_code body \<Rightarrow> status_code \<noteq> 200 \<or> body \<noteq> None)"

definition fetched :: "(string \<Rightarrow> http_result) \<Rightarrow> string \<Rightarrow> entry" where
  "fetched http c =
     (case http c of
        NoConnection \<Rightarrow> NoneEntry
      | Response status_code body \<Rightarrow>
          if status_code \<noteq> 200 then NoneEntry
          else (case body of None \<Rightarrow> NoneEntry | Some data \<Rightarrow> data))"

section \<open>Basic facts about dicts\<close>

lemma contains_map_of: "contains d k \<longleftrightarrow> map_of d k \<noteq> None"
  by (simp add: contains_def map_of_eq_None_iff)

lemma getitem_contains: "contains d k \<Longrightarrow> \<exists>v. getitem d k = Inr v \<and> map_of d k = Some v"
  by (auto simp: contains_map_of getitem_def)


section \<open>The anchor of a code\<close>

lemma scan_items_None_iff:
  "scan_items data c = None \<longleftrightarrow> (\<forall>p \<in> set data. \<not> has_rate (snd p) c)"
  by (induction data c rule: scan_items.induct) (auto simp: has_rate_def split: option.splits)

lemma scan_items_hit:
  "has_rate e c \<Longrightarrow> scan_items ((b, e) # rest) c = Some b"
  by (auto simp: has_rate_def split: option.splits)

lemma scan_items_miss:
  "\<not> has_rate e c \<Longrightarrow> scan_items ((b, e) # rest) c = scan_items rest c"
  by (auto simp: has_rate_def split: option.splits)

text \<open>
  The loop returns \<open>a\<close> exactly when the table splits into items that do not list the
  code, then an item of key \<open>a\<close> that does: the first such item in iteration order.
\<close>

lemma scan_items_Some_iff:
  "scan_items data c = Some a \<longleftrightarrow>
     (\<exists>pre e post. data = pre @ (a, e) # post \<and> has_rate e c \<and>
        (\<forall>p \<in> set pre. \<not> has_rate (snd p) c))"
  (is "?scan data \<longleftrightarrow> ?split data")
proof (induction data)
  case Nil
  then show ?case by simp
next
  case (Cons item rest)
  obtain b d where item: "item = (b, d)" by (cases item)
  show ?case
  proof (cases "has_rate d c")
    case True
    have hit: "scan_items (item # rest) c = Some b"
      unfolding item using True by (rule scan_items_hit)
    have "?split (item # rest) \<longleftrightarrow> a = b"
    proof
      assume "?split (item # rest)"
      then obtain pre e post where split: "item # rest = pre @ (a, e) # post"
        and none: "\<forall>p \<in> set pre. \<not> has_rate (snd p) c" by blast
      show "a = b"
      proof (cases pre)
        case Nil
        with split item show ?thesis by simp
      next
        case (Cons q qs)
        with split item have "q = (b, d)" by simp
        with none Cons True show ?thesis by simp
      qed
    next
      assume "a = b"
      with item have "item # rest = [] @ (a, d) # rest" by simp
      moreover have "\<forall>p \<in> set []. \<not> has_rate (snd p) c" by simp
      ultimately show "?split (item # rest)" using True by blast
    qed
    with hit show ?thesis by auto
  next
    case False
    have miss: "scan_items (item # rest) c = scan_items rest c"
      unfolding item using False by (rule scan_items_miss)
    have "?split (item # rest) \<longleftrightarrow> ?split rest"
    proof
      assume "?split (item # rest)"
      then obtain pre e post where split: "item # rest = pre @ (a, e) # post"
        and lists: "has_rate e c"
        and none: "\<forall>p \<in> set pre. \<not> has_rate (snd p) c" by blast
      show "?split rest"
      proof (cases pre)
        case Nil
        with split item lists False show ?thesis by simp
      next
        case (Cons q qs)
        with split have "rest = qs @ (a, e) # post" by simp
        moreover from none Cons have "\<forall>p \<in> set qs. \<not> has_rate (snd p) c" by simp
        ultimately show ?thesis using lists by blast
      qed
    next
      assume "?split rest"
      then obtain pre e post where split: "rest = pre @ (a, e) # post"
        and lists: "has_rate e c"
        and none: "\<forall>p \<in> set pre. \<not> has_rate (snd p) c" by blast
      from split have "item # rest = (item # pre) @ (a, e) # post" by simp
      moreover from none False item have "\<forall>p \<in> set (item # pre). \<not> has_rate (snd p) c"
        by simp
      ultimately show "?split (item # rest)" using lists by blast
    qed
    with miss Cons.IH show ?thesis by simp
  qed
qed

lemma scan_items_key: "scan_items data c = Some a \<Longrightarrow> contains data a"
  by (auto simp: scan_items_Some_iff contains_def)

lemma find_base_currency_key: "find_base_currency data c = Some a \<Longrightarrow> contains data a"
  by (auto simp: find_base_currency_def split: if_splits dest: scan_items_key)

text \<open>
  C8. The anchor of a code is the code itself when it is a key of the table; otherwise it
  is the key of the first item, in the iteration order of the table, whose rates list the
  code; and there is none exactly when no item lists the code. So a code listed under
  several anchors always resolves to the first of them. Both copies of the function,
  \<^verbatim>\<open>find_base_currency\<close> and \<^verbatim>\<open>find_base_currency_for_currency\<close>, agree.
\<close>

theorem find_base_currency_first_match:
  "find_base_currency_for_currency data code = find_base_currency data code \<and>
   (contains data code \<longrightarrow> find_base_currency data code = Some code) \<and>
   (\<not> contains data code \<longrightarrow>
      (find_base_currency data code = None \<longleftrightarrow> (\<forall>p \<in> set data. \<not> has_rate (snd p) code)) \<and>
      (find_base_currency data code = Some a \<longleftrightarrow>
         (\<exists>pre e post. data = pre @ (a, e) # post \<and> has_rate e code \<and>
            (\<forall>p \<in> set pre. \<not> has_rate (snd p) code))))"
  using scan_items_None_iff [of data code] scan_items_Some_iff [of data code a]
  by (simp add: find_base_currency_def find_base_currency_for_currency_def)

text \<open>
  Yen is listed under USD and under EUR, in that order, and is no anchor: it resolves to
  USD. USD is an anchor: it resolves to itself.
\<close>

theorem find_base_currency_first_match_witness:
  "\<not> contains [(''USD'', DictEntry (Some [(''USD'', 1), (''JPY'', 150)])),
                (''EUR'', DictEntry (Some [(''EUR'', 1), (''JPY'', 160)]))] ''JPY'' \<and>
   has_rate (DictEntry (Some [(''USD'', 1), (''JPY'', 150)])) ''JPY'' \<and>
   has_rate (DictEntry (Some [(''EUR'', 1), (''JPY'', 160)])) ''JPY'' \<and>
   find_base_currency [(''USD'', DictEntry (Some [(''USD'', 1), (''JPY'', 150)])),
                       (''EUR'', DictEntry (Some [(''EUR'', 1), (''JPY'', 160)]))] ''JPY'' = Some ''USD'' \<and>
   contains [(''USD'', DictEntry (Some [(''USD'', 1), (''JPY'', 150)])),
             (''EUR'', DictEntry (Some [(''EUR'', 1), (''JPY'', 160)]))] ''USD'' \<and>
   find_base_currency [(''USD'', DictEntry (Some [(''USD'', 1), (''JPY'', 150)])),
                       (''EUR'', DictEntry (Some [(''EUR'', 1), (''JPY'', 160)]))] ''USD'' = Some ''USD''"
proof -
  let ?usd = "DictEntry (Some [(''USD'', 1), (''JPY'', 150)])"
  let ?eur = "DictEntry (Some [(''EUR'', 1), (''JPY'', 160)])"
  let ?t = "[(''USD'', ?usd), (''EUR'', ?eur)]"
  have no_anchor: "\<not> contains ?t ''JPY''" and anchor: "contains ?t ''USD''"
    by (simp_all add: contains_def)
  have usd: "has_rate ?usd ''JPY''" and eur: "has_rate ?eur ''JPY''"
    by (simp_all add: has_rate_def contains_def)
  have "?t = [] @ (''USD'', ?usd) # [(''EUR'', ?eur)] \<and> has_rate ?usd ''JPY'' \<and>
      (\<forall>p \<in> set []. \<not> has_rate (snd p) ''JPY'')"
    using usd by simp
  then have split: "\<exists>pre e post. ?t = pre @ (''USD'', e) # post \<and> has_rate e ''JPY'' \<and>
      (\<forall>p \<in> set pre. \<not> has_rate (snd p) ''JPY'')"
    by blast
  have "find_base_currency ?t ''JPY'' = Some ''USD''"
    using find_base_currency_first_match [of ?t "''JPY''" "''USD''"] no_anchor split by blast
  moreover have "find_base_currency ?t ''USD'' = Some ''USD''"
    using find_base_currency_first_match [of ?t "''USD''" "''USD''"] anchor by blast
  ultimately show ?thesis using no_anchor anchor usd eur by blast
qed

section \<open>Exchange rates\<close>





text \<open>No exception leaves \<^verbatim>\<open>get_exchange_rate\<close>: every subscript and the division are guarded.\<close>

lemma get_exchange_rate_returns: "\<exists>r. get_exchange_rate data f t = Inr r"
proof (cases "f = t")
  case True
  then show ?thesis by (simp add: get_exchange_rate_def)
next
  case diff: False
  show ?thesis
  proof (cases "find_base_currency data f")
    case None
    with diff show ?thesis by (simp add: get_exchange_rate_def)
  next
    case (Some a)
    then obtain e where e: "getitem data a = Inr e"
      using find_base_currency_key getitem_contains by blast
    show ?thesis
    proof (cases "rates_of e")
      case None
      with diff Some e show ?thesis by (simp add: get_exchange_rate_def)
    next
      case rs: (Some rs)
      show ?thesis
      proof (cases "contains rs f \<and> contains rs t")
        case False
        with diff Some e rs show ?thesis by (auto simp add: get_exchange_rate_def)
      next
        case True
        then obtain fr tr where "getitem rs f = Inr fr" and "getitem rs t = Inr tr"
          using getitem_contains by blast
        with True diff Some e rs show ?thesis
          by (simp add: get_exchange_rate_def py_div_def)
      qed
    qed
  qed
qed



text \<open>
  C9. For every table, also the empty one and one whose entries have no rates, and every
  string \<open>c\<close>, the exchange rate from \<open>c\<close> to \<open>c\<close> is 1 and not \<open>None\<close>: the comparison
  of the two codes is the first statement of \<^verbatim>\<open>get_exchange_rate\<close>, before any lookup, so
  an unknown code still succeeds.
\<close>

theorem get_exchange_rate_same_code: "get_exchange_rate data c c = Inr (Some 1)"
  by (simp add: get_exchange_rate_def)




text \<open>
  C10. \<^verbatim>\<open>get_exchange_rate\<close> never divides by zero: no call ends in
  \<open>ZeroDivisionError\<close>, and when the rate of \<open>from\<close> under its anchor is zero the
  result is \<open>None\<close>, returned before the division.
\<close>

theorem get_exchange_rate_no_zero_division:
  "get_exchange_rate data f t \<noteq> Inl ZeroDivisionError \<and>
   (f \<noteq> t \<and> find_base_currency data f = Some a \<and> map_of data a = Some e \<and>
    rates_of e = Some rs \<and> map_of rs f = Some 0 \<longrightarrow> get_exchange_rate data f t = Inr None)"
proof
  show "get_exchange_rate data f t \<noteq> Inl ZeroDivisionError"
    using get_exchange_rate_returns [of data f t] by auto
next
  show "f \<noteq> t \<and> find_base_currency data f = Some a \<and> map_of data a = Some e \<and>
    rates_of e = Some rs \<and> map_of rs f = Some 0 \<longrightarrow> get_exchange_rate data f t = Inr None"
    by (auto simp add: get_exchange_rate_def getitem_def contains_map_of split: option.splits)
qed

theorem get_exchange_rate_no_zero_division_witness:
  "''EUR'' \<noteq> ''GBP'' \<and>
   find_base_currency
     [(''USD'', DictEntry (Some [(''USD'', 1), (''EUR'', 0), (''GBP'', 4/5)]))] ''EUR'' =
     Some ''USD'' \<and>
   map_of [(''USD'', DictEntry (Some [(''USD'', 1), (''EUR'', 0), (''GBP'', 4/5)]))] ''USD'' =
     Some (DictEntry (Some [(''USD'', 1), (''EUR'', 0), (''GBP'', 4/5)])) \<and>
   map_of [(''USD'', 1), (''EUR'', 0), (''GBP'', 4/5 :: rat)] ''EUR'' = Some 0 \<and>
   get_exchange_rate
     [(''USD'', DictEntry (Some [(''USD'', 1), (''EUR'', 0), (''GBP'', 4/5)]))] ''EUR'' ''GBP'' =
     Inr None"
proof -
  let ?rs = "[(''USD'', 1), (''EUR'', 0), (''GBP'', 4/5 :: rat)]"
  let ?t = "[(''USD'', DictEntry (Some ?rs))]"
  have anchor: "find_base_currency ?t ''EUR'' = Some ''USD''"
    by (simp add: find_base_currency_def contains_def)
  have entry: "map_of ?t ''USD'' = Some (DictEntry (Some ?rs))" and zero: "map_of ?rs ''EUR'' = Some 0"
    by simp_all
  have "get_exchange_rate ?t ''EUR'' ''GBP'' = Inr None"
    using get_exchange_rate_no_zero_division [of ?t "''EUR''" "''GBP''" "''USD''"
        "DictEntry (Some ?rs)" ?rs] anchor entry zero
    by simp
  with anchor entry zero show ?thesis by simp
qed




section \<open>Rates relative to a base currency\<close>










section \<open>Conversion\<close>





section \<open>The age of the cache file\<close>



section \<open>Saving and refreshing\<close>

lemma write_chunks_NoFault: "write_chunks NoFault cs w = (True, w @ concat cs)"
  by (induction cs arbitrary: w) auto

lemma write_chunks_WriteFails:
  "write_chunks (WriteFails k) cs w =
     (if k < length cs then (False, w @ concat (take k cs)) else (True, w @ concat cs))"
proof (induction cs arbitrary: k w)
  case Nil
  then show ?case by simp
next
  case (Cons c cs)
  then show ?case by (cases k) auto
qed

lemma save_to_file_result:
  "save_to_file fault chunks f =
     (case fault of
        NoFault \<Rightarrow> (Some (concat chunks), [])
      | OpenFails \<Rightarrow> (f, [SaveFailed])
      | WriteFails k \<Rightarrow>
          if k < length chunks then (Some (concat (take k chunks)), [SaveFailed])
          else (Some (concat chunks), []))"
  by (cases fault) (simp_all add: save_to_file_def write_chunks_NoFault write_chunks_WriteFails)

text \<open>
  C7, as the code has it. \<^verbatim>\<open>save_to_file\<close> never raises. Without a fault the file ends up
  holding the whole serialisation and nothing is printed. When opening fails, the file is
  left as it was and the failure is printed. When a write fails, the failure is printed
  and the file holds only the pieces written before it: the previous contents are gone.
  And whatever the save did, a stale cache makes \<^verbatim>\<open>load_or_update_currency_rates\<close>
  return what it reads back from the file after the save, not the table it fetched.
\<close>

theorem save_to_file_effect:
  "save_to_file fault chunks f =
     (case fault of
        NoFault \<Rightarrow> (Some (concat chunks), [])
      | OpenFails \<Rightarrow> (f, [SaveFailed])
      | WriteFails k \<Rightarrow>
          if k < length chunks then (Some (concat (take k chunks)), [SaveFailed])
          else (Some (concat chunks), [])) \<and>
   (is_file_older_than_24_hours path_exists getmtime current_time \<and>
    fetch_loop http favorites [] = Inr all_data \<longrightarrow>
      load_or_update_currency_rates path_exists getmtime current_time favorites http encode
          decode fault f =
        Inr (fst (read_from_file decode (fst (save_to_file fault (encode all_data) f)))))"
  by (simp add: save_to_file_result load_or_update_currency_rates_def update_currency_rates_def
      split: prod.splits)

text \<open>
  No cache file yet, every anchor answers 503, and the file cannot be opened for writing:
  the table was fetched with a \<open>None\<close> entry for each anchor, the save failed, and the
  caller gets \<open>None\<close>. (The encoder and the parser are not reached with anything that
  matters here: the keys of the table stand for the pieces, and the parser is never called.)
\<close>

theorem save_to_file_effect_witness:
  "is_file_older_than_24_hours False (Inl OSError) 0 \<and>
   fetch_loop http_unavailable FAVORITE_CURRENCIES [] =
     Inr [(''USD'', NoneEntry), (''EUR'', NoneEntry), (''GBP'', NoneEntry), (''RUB'', NoneEntry)] \<and>
   save_to_file OpenFails [''USD'', ''EUR'', ''GBP'', ''RUB''] None = (None, [SaveFailed]) \<and>
   load_or_update_currency_rates False (Inl OSError) 0 FAVORITE_CURRENCIES http_unavailable
     (map fst) Map.empty OpenFails None = Inr None"
proof -
  let ?all = "[(''USD'', NoneEntry), (''EUR'', NoneEntry), (''GBP'', NoneEntry), (''RUB'', NoneEntry)]"
  have stale: "is_file_older_than_24_hours False (Inl OSError) 0"
    by (simp add: is_file_older_than_24_hours_def)
  have fetch: "fetch_loop http_unavailable FAVORITE_CURRENCIES [] = Inr ?all"
    by (simp add: FAVORITE_CURRENCIES_def get_currency_rate_def http_unavailable_def)
  note effect = save_to_file_effect [where fault = OpenFails and chunks = "map fst ?all"
      and f = None and path_exists = False and getmtime = "Inl OSError" and current_time = 0
      and http = http_unavailable and favorites = FAVORITE_CURRENCIES and all_data = ?all
      and encode = "map fst" and decode = Map.empty]
  from effect have save:
    "save_to_file OpenFails [''USD'', ''EUR'', ''GBP'', ''RUB''] None = (None, [SaveFailed])"
    by simp
  from effect stale fetch have "load_or_update_currency_rates False (Inl OSError) 0
      FAVORITE_CURRENCIES http_unavailable (map fst) Map.empty OpenFails None =
      Inr (fst (read_from_file Map.empty (fst (save_to_file OpenFails (map fst ?all) None))))"
    by blast
  then have "load_or_update_currency_rates False (Inl OSError) 0
      FAVORITE_CURRENCIES http_unavailable (map fst) Map.empty OpenFails None = Inr None"
    by (simp add: save read_from_file_def)
  with stale fetch save show ?thesis by simp
qed

text \<open>
  C7 as stated fails: the save is not atomic. The file held \<open>old\<close>, the serialisation
  has the two pieces \<open>{\<close> and \<open>}\<close>, and the second write fails: the file is left with
  \<open>{\<close>, which is neither what it held nor the whole snapshot.
\<close>

theorem save_to_file_not_atomic_counterexample:
  "fst (save_to_file (WriteFails 1) [''{'', ''}''] (Some ''old'')) = Some ''{'' \<and>
   Some ''{'' \<noteq> Some ''old'' \<and> Some ''{'' \<noteq> Some (concat [''{'', ''}''])"
  by (simp add: save_to_file_def)

lemma get_currency_rate_answers:
  "answers http c \<Longrightarrow> get_currency_rate http c = Inr (fetched http c)"
  by (auto simp: answers_def fetched_def get_currency_rate_def split: http_result.splits)

text \<open>
  As long as every request is answered, the loop of \<^verbatim>\<open>update_currency_rates\<close> builds a
  table with an entry for every configured anchor, \<open>None\<close> for a status other than 200.
\<close>

lemma fetch_loop_answers:
  "\<forall>c \<in> set favorites. answers http c \<Longrightarrow>
     \<exists>all_data. fetch_loop http favorites acc = Inr all_data \<and>
        (\<forall>c. map_of all_data c =
           (if c \<in> set favorites then Some (fetched http c) else map_of acc c))"
proof (induction favorites arbitrary: acc)
  case Nil
  then show ?case by simp
next
  case (Cons a rest)
  let ?acc = "AList.update a (fetched http a) acc"
  from Cons.prems have "\<forall>c \<in> set rest. answers http c" by simp
  from Cons.IH [OF this, of ?acc] obtain all_data where
    loop: "fetch_loop http rest ?acc = Inr all_data" and
    view: "\<forall>c. map_of all_data c =
      (if c \<in> set rest then Some (fetched http c) else map_of ?acc c)"
    by blast
  from Cons.prems have "get_currency_rate http a = Inr (fetched http a)"
    by (simp add: get_currency_rate_answers)
  with loop have "fetch_loop http (a # rest) acc = Inr all_data" by simp
  moreover from view have "\<forall>c. map_of all_data c =
      (if c \<in> set (a # rest) then Some (fetched http c) else map_of acc c)"
    by (simp add: AList.update_conv')
  ultimately show ?case by blast
qed

text \<open>
  C4 at a failing input. All four configured anchors answer 200, except that the request
  for EUR finds no connection, or that the body returned for EUR is not JSON. In both
  cases the exception leaves \<^verbatim>\<open>get_currency_rate\<close> and \<^verbatim>\<open>update_currency_rates\<close>, which
  catch nothing: the refresh is aborted, no entry is stored for EUR, GBP and RUB are not
  fetched, and nothing is saved.
\<close>

theorem update_currency_rates_aborts:
  "update_currency_rates FAVORITE_CURRENCIES http_eur_down encode fault f = Inl RequestException \<and>
   update_currency_rates FAVORITE_CURRENCIES http_eur_not_json encode fault f = Inl JSONDecodeError"
  by (simp add: update_currency_rates_def FAVORITE_CURRENCIES_def get_currency_rate_def
      http_eur_down_def http_eur_not_json_def)

end
